theory Spec2Isabelle
  imports
    Complex_Main
    "HOL-Library.Multiset"
    "HOL-Library.Char_ord"
    "HOL-Library.List_Lexorder"
begin

section \<open>JavaScript values used by the gateway\<close>

text \<open>
  A JavaScript number as the gateway uses it: a limit or a day count read with
  \<^verbatim>\<open>parseInt\<close>, which is an integer or \<^verbatim>\<open>NaN\<close>. Integers are kept exact
  (the model is the one of IEEE doubles inside the safe integer range, where
  \<^verbatim>\<open>-0\<close> and \<^verbatim>\<open>0\<close> behave alike in every operation used here).
\<close>

datatype jsnum = NaN | Num int

text \<open>
  Strings are lists of code units below 256. \<^verbatim>\<open>isWhiteSpace\<close> is the
  \<^verbatim>\<open>StrWhiteSpaceChar\<close> class of \<^verbatim>\<open>parseInt\<close> restricted to that alphabet:
  TAB, LF, VT, FF, CR, SP and NBSP.
\<close>

definition isWhiteSpace :: "char \<Rightarrow> bool" where
  "isWhiteSpace c = (of_char c \<in> {9, 10, 11, 12, 13, 32, 160 :: nat})"

text \<open>The value of a character as a digit of any radix up to 36, when it is one.\<close>

definition digitValue :: "char \<Rightarrow> nat option" where
  "digitValue c =
     (let n = (of_char c :: nat) in
      if 48 \<le> n \<and> n \<le> 57 then Some (n - 48)
      else if 97 \<le> n \<and> n \<le> 122 then Some (n - 87)
      else if 65 \<le> n \<and> n \<le> 90 then Some (n - 55)
      else None)"

definition isRadixDigit :: "nat \<Rightarrow> char \<Rightarrow> bool" where
  "isRadixDigit R c = (case digitValue c of None \<Rightarrow> False | Some d \<Rightarrow> d < R)"

definition mathInt :: "nat \<Rightarrow> string \<Rightarrow> int" where
  "mathInt R z = foldl (\<lambda>acc c. int R * acc + int (the (digitValue c))) 0 z"

text \<open>
  \<^verbatim>\<open>parseInt(string, radix)\<close> of ECMA-262: leading white space is skipped, one
  sign is read, with no radix (or radix 16) a prefix \<^verbatim>\<open>0x\<close> selects base 16, the
  longest run of digits is read, and an empty run gives \<^verbatim>\<open>NaN\<close>. The radix
  argument is \<open>None\<close> when the call omits it.
\<close>

definition parseInt :: "string \<Rightarrow> nat option \<Rightarrow> jsnum" where
  "parseInt inputString radix =
     (let S = dropWhile isWhiteSpace inputString;
          sign = (if S \<noteq> [] \<and> hd S = CHR ''-'' then - 1 else 1 :: int);
          S1 = (if S \<noteq> [] \<and> (hd S = CHR ''+'' \<or> hd S = CHR ''-'') then tl S else S);
          R0 = (case radix of None \<Rightarrow> 0 | Some r \<Rightarrow> r)
      in if R0 \<noteq> 0 \<and> (R0 < 2 \<or> 36 < R0) then NaN
         else
           let stripPrefix = (R0 = 0 \<or> R0 = 16);
               R1 = (if R0 = 0 then 10 else R0);
               hex = (stripPrefix \<and> (take 2 S1 = ''0x'' \<or> take 2 S1 = ''0X''));
               S2 = (if hex then drop 2 S1 else S1);
               R = (if hex then 16 else R1);
               Z = takeWhile (isRadixDigit R) S2
           in if Z = [] then NaN else Num (sign * mathInt R Z))"

text \<open>\<^verbatim>\<open>String(n)\<close> for the numbers above: decimal digits, a minus sign, or \<^verbatim>\<open>NaN\<close>.\<close>

definition digitChar :: "nat \<Rightarrow> char" where
  "digitChar d = ''0123456789'' ! d"

function digits10 :: "nat \<Rightarrow> string" where
  "digits10 n = (if n < 10 then [digitChar n] else digits10 (n div 10) @ [digitChar (n mod 10)])"
  by pat_completeness auto
termination
  by (relation "measure (\<lambda>n. n)") auto

declare digits10.simps [simp del]

definition String_of :: "jsnum \<Rightarrow> string" where
  "String_of x =
     (case x of NaN \<Rightarrow> ''NaN''
      | Num i \<Rightarrow> (if i < 0 then CHR ''-'' # digits10 (nat (- i)) else digits10 (nat i)))"

text \<open>
  \<^verbatim>\<open>Math.ceil(x / n)\<close> with \<open>n\<close> the length of a non-empty array, and
  \<^verbatim>\<open>Math.max(10, y)\<close>: both give \<^verbatim>\<open>NaN\<close> on \<^verbatim>\<open>NaN\<close>. The quotient is taken
  in the rationals.
\<close>

definition Math_ceil_div :: "jsnum \<Rightarrow> nat \<Rightarrow> jsnum" where
  "Math_ceil_div x n =
     (case x of NaN \<Rightarrow> NaN | Num l \<Rightarrow> Num \<lceil>(of_int l :: rat) / of_nat n\<rceil>)"

definition Math_max :: "int \<Rightarrow> jsnum \<Rightarrow> jsnum" where
  "Math_max a y = (case y of NaN \<Rightarrow> NaN | Num b \<Rightarrow> Num (max a b))"

text \<open>
  \<^verbatim>\<open>array.slice(0, end)\<close>: \<^verbatim>\<open>NaN\<close> counts as 0, a negative end counts from the
  end of the array, and the end is clamped to the length.
\<close>

definition slice0 :: "jsnum \<Rightarrow> 'a list \<Rightarrow> 'a list" where
  "slice0 end xs =
     (let len = int (length xs);
          relativeEnd = (case end of NaN \<Rightarrow> 0 | Num e \<Rightarrow> e);
          final = (if relativeEnd < 0 then max (len + relativeEnd) 0 else min relativeEnd len)
      in take (nat final) xs)"

text \<open>A string is truthy when it is not empty; \<^verbatim>\<open>undefined\<close> is falsy.\<close>

definition truthy :: "string option \<Rightarrow> bool" where
  "truthy v = (case v of None \<Rightarrow> False | Some s \<Rightarrow> s \<noteq> [])"

definition js_or :: "string option \<Rightarrow> string option \<Rightarrow> string option" where
  "js_or a b = (if truthy a then a else b)"

text \<open>
  \<^verbatim>\<open>a.localeCompare(b)\<close> on timestamps. Timestamps are ISO-8601 strings of one
  format, on which the collation order is the order of the code units; the model
  compares code units.
\<close>

definition localeCompare :: "string \<Rightarrow> string \<Rightarrow> int" where
  "localeCompare a b = (if a < b then - 1 else if a = b then 0 else 1)"

text \<open>
  \<^verbatim>\<open>array.sort(compareFn)\<close>: the sort is stable, so with a consistent comparator the
  result is the one of an insertion sort that puts an element before the first one
  it does not come after.
\<close>

fun insert_by :: "('a \<Rightarrow> 'a \<Rightarrow> int) \<Rightarrow> 'a \<Rightarrow> 'a list \<Rightarrow> 'a list" where
  "insert_by compareFn x [] = [x]"
| "insert_by compareFn x (y # ys) =
     (if compareFn x y \<le> 0 then x # y # ys else y # insert_by compareFn x ys)"

definition Array_sort :: "('a \<Rightarrow> 'a \<Rightarrow> int) \<Rightarrow> 'a list \<Rightarrow> 'a list" where
  "Array_sort compareFn xs = foldr (insert_by compareFn) xs []"

section \<open>URLSearchParams\<close>

text \<open>
  The parsed query string: the list of name-value pairs in the order of the URL, with
  the methods the gateway calls. \<^verbatim>\<open>set\<close> overwrites the first pair of the name and
  removes the others, or appends a pair when there is none.
\<close>

type_synonym URLSearchParams = "(string \<times> string) list"

definition searchParams_has :: "string \<Rightarrow> URLSearchParams \<Rightarrow> bool" where
  "searchParams_has name ps = (name \<in> fst ` set ps)"

definition searchParams_get :: "string \<Rightarrow> URLSearchParams \<Rightarrow> string option" where
  "searchParams_get name ps = map_of ps name"

definition searchParams_getAll :: "string \<Rightarrow> URLSearchParams \<Rightarrow> string list" where
  "searchParams_getAll name ps = map snd (filter (\<lambda>p. fst p = name) ps)"

definition searchParams_delete :: "string \<Rightarrow> URLSearchParams \<Rightarrow> URLSearchParams" where
  "searchParams_delete name ps = filter (\<lambda>p. fst p \<noteq> name) ps"

fun searchParams_set :: "string \<Rightarrow> string \<Rightarrow> URLSearchParams \<Rightarrow> URLSearchParams" where
  "searchParams_set name v [] = [(name, v)]"
| "searchParams_set name v (p # ps) =
     (if fst p = name then (name, v) # searchParams_delete name ps
      else p # searchParams_set name v ps)"

section \<open>Data model\<close>

text \<open>
  The types of \<^verbatim>\<open>./types\<close> and \<^verbatim>\<open>./result\<close>, with the fields of the
  \<^verbatim>\<open>logs\<close> table: a log entry is its input and the identifier and timestamp the
  actor gives it; an aggregated entry carries its source application.
\<close>

datatype ErrorCode = BAD_REQUEST | UNAUTHORIZED | NOT_FOUND | INTERNAL_ERROR

datatype 'a Result = Ok 'a | Err ErrorCode string

record LogInput =
  level :: string
  message :: string
  context_json :: "string option"
  request_id :: "string option"

record LogEntry = LogInput +
  entry_id :: string
  timestamp :: string

record AggregatedLogEntry = LogEntry +
  app_id :: string

text \<open>
  A Durable Object is addressed by the identifier its namespace derives from a name;
  \<^verbatim>\<open>getAppDO\<close> gives the stub of the object named by the application. A stub is
  the function from a request to what \<^verbatim>\<open>await stub.fetch(...)\<close> followed by
  \<^verbatim>\<open>await res.json()\<close> gives: an exception, or a JSON body with its \<^verbatim>\<open>ok\<close>
  flag and its \<^verbatim>\<open>data\<close>, an array of log entries or any other JSON value.
\<close>

datatype do_id = idFromName string

datatype do_request =
    POST_log LogInput
  | POST_logs "LogInput list"
  | POST_stats_level string
  | POST_stats_counts "(string \<times> nat) list"
  | GET_logs URLSearchParams
  | GET_stats jsnum
  | POST_prune "string option"
  | POST_health_urls "string list"

datatype 'x do_data = Array "LogEntry list" | Other 'x

datatype 'x do_json = Json (ok: bool) (data: "'x do_data")

datatype 'x fetched = Throws | Resolved "'x do_json"

record ('kv, 'x) Env =
  APP_LOGS_DO :: "do_id \<Rightarrow> do_request \<Rightarrow> 'x fetched"
  LOGS_KV :: "'kv option"

definition getAppDO :: "('kv, 'x) Env \<Rightarrow> string \<Rightarrow> do_request \<Rightarrow> 'x fetched" where
  "getAppDO env appId = APP_LOGS_DO env (idFromName appId)"

text \<open>
  What a handler does besides answering: the requests it sends to actors and the calls
  it makes to the registry and statistics services, in order.
\<close>

datatype call =
    DO_fetch do_id do_request
  | Call_listApps
  | Call_getApp string
  | Call_deleteApp string
  | Call_incrementStats string string
  | Call_incrementStatsBatch string "(string \<times> nat) list"

text \<open>
  A handler answers with a status and a body, its own \<^verbatim>\<open>Ok\<close>/\<^verbatim>\<open>Err\<close> result or the
  JSON of an actor passed on, or lets an exception escape.
\<close>

datatype ('a, 'x) body = Own "'a Result" | Forwarded "'x do_json"

datatype ('a, 'x) outcome = Unhandled | Response nat "('a, 'x) body"

section \<open>The aggregated query of \<^verbatim>\<open>GET /logs\<close>\<close>

definition tag :: "string \<Rightarrow> LogEntry \<Rightarrow> AggregatedLogEntry" where
  "tag ident entry =
     \<lparr>level = level entry, message = message entry, context_json = context_json entry,
      request_id = request_id entry, entry_id = entry_id entry, timestamp = timestamp entry,
      app_id = ident\<rparr>"

text \<open>The body of the \<^verbatim>\<open>try\<close> for one application, and its \<^verbatim>\<open>catch\<close>.\<close>

definition tenant_result :: "'x fetched \<Rightarrow> string \<Rightarrow> AggregatedLogEntry list" where
  "tenant_result res ident =
     (case res of
        Throws \<Rightarrow> []
      | Resolved json \<Rightarrow>
          (case data json of
             Array entries \<Rightarrow> if ok json then map (tag ident) entries else []
           | Other _ \<Rightarrow> []))"

text \<open>The results of \<^verbatim>\<open>Promise.all\<close>: one list for each application, in order.\<close>

definition results_of ::
  "('kv, 'x) Env \<Rightarrow> URLSearchParams \<Rightarrow> string list \<Rightarrow> AggregatedLogEntry list list" where
  "results_of env perAppParams appIds =
     map (\<lambda>ident. tenant_result (getAppDO env ident (GET_logs perAppParams)) ident) appIds"

definition by_timestamp_desc :: "AggregatedLogEntry \<Rightarrow> AggregatedLogEntry \<Rightarrow> int" where
  "by_timestamp_desc a b = localeCompare (timestamp b) (timestamp a)"

text \<open>
  The limits and the query of each application. \<^verbatim>\<open>get\<close> gives \<^verbatim>\<open>null\<close> for a name
  that is not there, which \<^verbatim>\<open>parseInt\<close> reads as the text \<^verbatim>\<open>null\<close>.
\<close>

definition globalLimit_of :: "URLSearchParams \<Rightarrow> jsnum" where
  "globalLimit_of search =
     (if searchParams_has ''limit'' search then
        parseInt (case searchParams_get ''limit'' search of Some v \<Rightarrow> v | None \<Rightarrow> ''null'')
          (Some 10)
      else Num 100)"

definition perAppLimit_of :: "URLSearchParams \<Rightarrow> nat \<Rightarrow> jsnum" where
  "perAppLimit_of search n = Math_max 10 (Math_ceil_div (globalLimit_of search) n)"

definition perAppParams_of :: "URLSearchParams \<Rightarrow> nat \<Rightarrow> URLSearchParams" where
  "perAppParams_of search n =
     searchParams_delete ''offset''
       (searchParams_set ''limit'' (String_of (perAppLimit_of search n)) search)"

definition get_logs ::
  "('kv \<Rightarrow> string list Result) \<Rightarrow> ('kv, 'x) Env \<Rightarrow> string option \<Rightarrow> string option \<Rightarrow>
   URLSearchParams \<Rightarrow> (AggregatedLogEntry list, 'x) outcome \<times> call list" where
  "get_logs listApps env ctx_appId header_app_id search =
     (let appId = js_or ctx_appId header_app_id in
      if truthy appId then
        (case getAppDO env (the appId) (GET_logs search) of
           Throws \<Rightarrow> (Unhandled, [DO_fetch (idFromName (the appId)) (GET_logs search)])
         | Resolved json \<Rightarrow>
             (Response 200 (Forwarded json),
              [DO_fetch (idFromName (the appId)) (GET_logs search)]))
      else
        (case LOGS_KV env of
           None \<Rightarrow>
             (Response 500 (Own (Err INTERNAL_ERROR ''KV namespace not configured'')), [])
         | Some kv \<Rightarrow>
             (case listApps kv of
                Err code msg \<Rightarrow> (Response 500 (Own (Err code msg)), [Call_listApps])
              | Ok appIds \<Rightarrow>
                  if length appIds = 0 then (Response 200 (Own (Ok [])), [Call_listApps])
                  else
                    let globalLimit = globalLimit_of search;
                        perAppParams = perAppParams_of search (length appIds);
                        results = results_of env perAppParams appIds;
                        merged = concat results;
                        sortedEntries = Array_sort by_timestamp_desc merged;
                        truncated = slice0 globalLimit sortedEntries
                    in (Response 200 (Own (Ok truncated)),
                        Call_listApps #
                        map (\<lambda>ident. DO_fetch (idFromName ident) (GET_logs perAppParams)) appIds))))"

text \<open>
  A request fails when an exception escapes, when the answer is an \<^verbatim>\<open>Err\<close> result
  or the JSON of an actor that is not ok, or when its status is an error status.
\<close>

definition is_failure :: "('a, 'x) outcome \<Rightarrow> bool" where
  "is_failure out =
     (case out of
        Unhandled \<Rightarrow> True
      | Response status b \<Rightarrow>
          (case b of
             Own r \<Rightarrow> (case r of Err code msg \<Rightarrow> True | Ok v \<Rightarrow> 400 \<le> status)
           | Forwarded json \<Rightarrow> \<not> ok json \<or> 400 \<le> status))"


text \<open>A log entry for the examples, with the given timestamp.\<close>

definition entry_at :: "string \<Rightarrow> LogEntry" where
  "entry_at t =
     \<lparr>level = ''INFO'', message = ''m'', context_json = None, request_id = None,
      entry_id = ''id-'' @ t, timestamp = t\<rparr>"

section \<open>Writes: \<^verbatim>\<open>POST /logs\<close> and the RPC entrypoint\<close>












section \<open>Handlers for one application\<close>

text \<open>
  \<^verbatim>\<open>authenticatedAppId\<close> is what the authentication middleware left in the context:
  the application of the API key, or nothing for the admin key.
\<close>

definition get_stats ::
  "('kv, 'x) Env \<Rightarrow> string \<Rightarrow> string option \<Rightarrow> string option \<Rightarrow> (unit, 'x) outcome \<times> call list" where
  "get_stats env appId authenticatedAppId daysQuery =
     (if truthy authenticatedAppId \<and> Some appId \<noteq> authenticatedAppId then
        (Response 403 (Own (Err UNAUTHORIZED ''App ID mismatch'')), [])
      else
        let days = (if truthy daysQuery then parseInt (the daysQuery) None else Num 7) in
        case getAppDO env appId (GET_stats days) of
          Throws \<Rightarrow> (Unhandled, [DO_fetch (idFromName appId) (GET_stats days)])
        | Resolved json \<Rightarrow>
            (Response 200 (Forwarded json), [DO_fetch (idFromName appId) (GET_stats days)]))"

definition post_prune ::
  "('kv, 'x) Env \<Rightarrow> string \<Rightarrow> string option \<Rightarrow> string option \<Rightarrow> (unit, 'x) outcome \<times> call list" where
  \<open>post_prune env appId authenticatedAppId before =
     (if Some appId \<noteq> authenticatedAppId then
        (Response 403 (Own (Err UNAUTHORIZED ''App ID mismatch'')), [])
      else if \<not> truthy before then
        (Response 400 (Own (Err BAD_REQUEST ''"before" timestamp required'')), [])
      else
        case getAppDO env appId (POST_prune before) of
          Throws \<Rightarrow> (Unhandled, [DO_fetch (idFromName appId) (POST_prune before)])
        | Resolved json \<Rightarrow>
            (Response 200 (Forwarded json), [DO_fetch (idFromName appId) (POST_prune before)]))\<close>

text \<open>The \<^verbatim>\<open>urls\<close> of a body are \<open>None\<close> when the member is missing or is not an array.\<close>

definition post_health_urls ::
  "('kv, 'x) Env \<Rightarrow> string \<Rightarrow> string option \<Rightarrow> string list option \<Rightarrow>
   (unit, 'x) outcome \<times> call list" where
  \<open>post_health_urls env appId authenticatedAppId urls =
     (if truthy authenticatedAppId \<and> Some appId \<noteq> authenticatedAppId then
        (Response 403 (Own (Err UNAUTHORIZED ''App ID mismatch'')), [])
      else
        case urls of
          None \<Rightarrow> (Response 400 (Own (Err BAD_REQUEST ''"urls" array required'')), [])
        | Some us \<Rightarrow>
            (case getAppDO env appId (POST_health_urls us) of
               Throws \<Rightarrow> (Unhandled, [DO_fetch (idFromName appId) (POST_health_urls us)])
             | Resolved json \<Rightarrow>
                 (Response 200 (Forwarded json),
                  [DO_fetch (idFromName appId) (POST_health_urls us)])))\<close>

text \<open>
  A registration is the object the registry stores, its members in order. The rest
  pattern \<^verbatim>\<open>{ api_key: _, ...safeData }\<close> keeps every member but \<^verbatim>\<open>api_key\<close>.
  \<^verbatim>\<open>getApp\<close> and \<^verbatim>\<open>deleteApp\<close> of \<^verbatim>\<open>./services/registry\<close> are parameters.
\<close>

definition safeData :: "(string \<times> 'v) list \<Rightarrow> (string \<times> 'v) list" where
  "safeData registration = filter (\<lambda>member. fst member \<noteq> ''api_key'') registration"

definition get_app ::
  "('kv \<Rightarrow> string \<Rightarrow> (string \<times> 'v) list option Result) \<Rightarrow> ('kv, 'x) Env \<Rightarrow> string \<Rightarrow>
   string option \<Rightarrow> ((string \<times> 'v) list, 'x) outcome \<times> call list" where
  "get_app getApp env appId authenticatedAppId =
     (if truthy authenticatedAppId \<and> Some appId \<noteq> authenticatedAppId then
        (Response 403 (Own (Err UNAUTHORIZED ''App ID mismatch'')), [])
      else
        case LOGS_KV env of
          None \<Rightarrow>
            (Response 500 (Own (Err INTERNAL_ERROR ''KV namespace not configured'')), [])
        | Some kv \<Rightarrow>
            (case getApp kv appId of
               Err code msg \<Rightarrow> (Response 500 (Own (Err code msg)), [Call_getApp appId])
             | Ok None \<Rightarrow>
                 (Response 404
                    (Own (Err NOT_FOUND (''App '' @ [CHR 0x27] @ appId @ [CHR 0x27] @ '' not found''))),
                  [Call_getApp appId])
             | Ok (Some registration) \<Rightarrow>
                 (Response 200 (Own (Ok (safeData registration))), [Call_getApp appId])))"

definition delete_app ::
  "('kv \<Rightarrow> string \<Rightarrow> 'd Result) \<Rightarrow> ('kv, 'x) Env \<Rightarrow> string \<Rightarrow> string option \<Rightarrow>
   ('d, 'x) outcome \<times> call list" where
  "delete_app deleteApp env appId authenticatedAppId =
     (if truthy authenticatedAppId \<and> Some appId \<noteq> authenticatedAppId then
        (Response 403 (Own (Err UNAUTHORIZED ''App ID mismatch'')), [])
      else
        case LOGS_KV env of
          None \<Rightarrow>
            (Response 500 (Own (Err INTERNAL_ERROR ''KV namespace not configured'')), [])
        | Some kv \<Rightarrow>
            (case deleteApp kv appId of
               Err code msg \<Rightarrow> (Response 500 (Own (Err code msg)), [Call_deleteApp appId])
             | Ok d \<Rightarrow> (Response 200 (Own (Ok d)), [Call_deleteApp appId])))"

section \<open>The prune operation of the actor\<close>




section \<open>Numbers and their texts\<close>















section \<open>Properties of the query parameters and of the sort\<close>

lemma getAll_Nil: "searchParams_getAll name [] = []"
  by (simp add: searchParams_getAll_def)

lemma getAll_Cons:
  "searchParams_getAll name (p # ps) =
     (if fst p = name then snd p # searchParams_getAll name ps else searchParams_getAll name ps)"
  by (simp add: searchParams_getAll_def)

lemma getAll_delete:
  "searchParams_getAll name (searchParams_delete name' ps) =
     (if name = name' then [] else searchParams_getAll name ps)"
  by (induction ps) (auto simp: searchParams_getAll_def searchParams_delete_def)

lemma getAll_set_same: "searchParams_getAll name (searchParams_set name v ps) = [v]"
  by (induction ps) (simp_all add: getAll_Nil getAll_Cons getAll_delete)



lemma has_iff_get: "searchParams_has name ps \<longleftrightarrow> searchParams_get name ps \<noteq> None"
  by (simp add: searchParams_has_def searchParams_get_def map_of_eq_None_iff)



lemma aggregate_response:
  assumes "\<not> truthy (js_or ctx hdr)" "LOGS_KV env = Some kv" "listApps kv = Ok appIds" "appIds \<noteq> []"
  shows "fst (get_logs listApps env ctx hdr search) =
     Response 200 (Own (Ok (slice0 (globalLimit_of search)
       (Array_sort by_timestamp_desc
         (concat (results_of env (perAppParams_of search (length appIds)) appIds))))))"
  using assms by (simp add: get_logs_def Let_def)













lemma slice0_NaN: "slice0 NaN xs = []"
  by (simp add: slice0_def)



lemma safeData_map_of:
  "name \<noteq> ''api_key'' \<Longrightarrow> map_of (safeData registration) name = map_of registration name"
  by (induction registration) (auto simp: safeData_def)

lemma safeData_replace_key:
  "safeData (map (\<lambda>member. if fst member = ''api_key'' then (''api_key'', secret) else member)
     registration) = safeData registration"
  by (induction registration) (auto simp: safeData_def)

section \<open>Properties of the per-level counts\<close>










section \<open>The aggregated query\<close>








text \<open>
  Claim C10. When the \<^verbatim>\<open>limit\<close> of an aggregated query is present and
  \<^verbatim>\<open>parseInt\<close> gives \<^verbatim>\<open>NaN\<close> on it, and the registry lists the applications, the
  query succeeds with the empty list whatever the actors answer: the limit of each
  application is \<^verbatim>\<open>NaN\<close>, sent as the text \<^verbatim>\<open>NaN\<close>, and the slice is empty.
\<close>

theorem aggregate_limit_NaN:
  assumes "\<not> truthy (js_or ctx hdr)" and "LOGS_KV env = Some kv"
    and "listApps kv = Ok appIds"
    and "searchParams_get ''limit'' search = Some v" and "parseInt v (Some 10) = NaN"
  shows "fst (get_logs listApps env ctx hdr search) = Response 200 (Own (Ok []))
       \<and> \<not> is_failure (fst (get_logs listApps env ctx hdr search))
       \<and> perAppLimit_of search (length appIds) = NaN
       \<and> searchParams_getAll ''limit'' (perAppParams_of search (length appIds)) = [''NaN'']"
proof -
  have g: "globalLimit_of search = NaN"
    using assms(4,5) by (simp add: globalLimit_of_def has_iff_get)
  have r: "fst (get_logs listApps env ctx hdr search) = Response 200 (Own (Ok []))"
  proof (cases "appIds = []")
    case True
    then show ?thesis using assms by (simp add: get_logs_def Let_def)
  next
    case False
    then show ?thesis
      using aggregate_response[of ctx hdr env kv listApps appIds search] assms g
      by (simp add: slice0_NaN)
  qed
  have l: "perAppLimit_of search (length appIds) = NaN"
    by (simp add: perAppLimit_of_def g Math_ceil_div_def Math_max_def)
  have p: "searchParams_getAll ''limit'' (perAppParams_of search (length appIds)) = [''NaN'']"
    by (simp add: perAppParams_of_def getAll_delete getAll_set_same l String_of_def)
  show ?thesis using r l p by (simp add: is_failure_def)
qed

theorem aggregate_limit_NaN_witness:
  "parseInt ''abc'' (Some 10) = NaN
   \<and> fst (get_logs (\<lambda>_. Ok [''A'', ''B''])
       (\<lparr>APP_LOGS_DO = (\<lambda>_ _. Resolved (Json True (Array [entry_at ''01'', entry_at ''02'']))),
         LOGS_KV = Some ()\<rparr> :: (unit, unit) Env)
       None None [(''limit'', ''abc'')]) = Response 200 (Own (Ok []))"
proof -
  let ?env = "\<lparr>APP_LOGS_DO = (\<lambda>_ _. Resolved (Json True (Array [entry_at ''01'', entry_at ''02'']))),
         LOGS_KV = Some ()\<rparr> :: (unit, unit) Env"
  have cross: "\<not> truthy (js_or None None)"
    by (simp add: truthy_def js_or_def)
  have kv: "LOGS_KV ?env = Some ()" by simp
  have l: "(\<lambda>_ :: unit. Ok [''A'', ''B'']) () = Ok [''A'', ''B'']" by simp
  have g: "searchParams_get ''limit'' [(''limit'', ''abc'')] = Some ''abc''"
    by (simp add: searchParams_get_def)
  have p: "parseInt ''abc'' (Some 10) = NaN"
    by (simp add: parseInt_def isWhiteSpace_def isRadixDigit_def digitValue_def)
  from aggregate_limit_NaN[of None None ?env "()" "\<lambda>_. Ok [''A'', ''B'']" "[''A'', ''B'']"
      "[(''limit'', ''abc'')]" "''abc''", OF cross kv l g p]
  show ?thesis using p by simp
qed

section \<open>Handlers for one application\<close>

text \<open>
  Claim C9. A request authenticated with the API key of application \<open>a\<close> that names
  another application in its path is answered with 403 and the error
  \<^verbatim>\<open>UNAUTHORIZED\<close> by the handlers of the statistics, prune, health-URL, details and
  delete routes, and the handler sends no request to any actor and makes no call to
  the registry.
\<close>

theorem cross_tenant_rejected:
  assumes "authenticatedAppId = Some a" and "a \<noteq> []" and "a \<noteq> appId"
  shows "get_stats env appId authenticatedAppId daysQuery =
           (Response 403 (Own (Err UNAUTHORIZED ''App ID mismatch'')), [])
       \<and> post_prune env appId authenticatedAppId before =
           (Response 403 (Own (Err UNAUTHORIZED ''App ID mismatch'')), [])
       \<and> post_health_urls env appId authenticatedAppId urls =
           (Response 403 (Own (Err UNAUTHORIZED ''App ID mismatch'')), [])
       \<and> get_app getApp env appId authenticatedAppId =
           (Response 403 (Own (Err UNAUTHORIZED ''App ID mismatch'')), [])
       \<and> delete_app deleteApp env appId authenticatedAppId =
           (Response 403 (Own (Err UNAUTHORIZED ''App ID mismatch'')), [])"
proof -
  have t: "truthy authenticatedAppId" using assms(1,2) by (simp add: truthy_def)
  have ne: "Some appId \<noteq> authenticatedAppId" using assms(1,3) by auto
  have s: "get_stats env appId authenticatedAppId daysQuery =
           (Response 403 (Own (Err UNAUTHORIZED ''App ID mismatch'')), [])"
    using t ne by (simp add: get_stats_def)
  have p: "post_prune env appId authenticatedAppId before =
           (Response 403 (Own (Err UNAUTHORIZED ''App ID mismatch'')), [])"
    using ne by (simp add: post_prune_def)
  have h: "post_health_urls env appId authenticatedAppId urls =
           (Response 403 (Own (Err UNAUTHORIZED ''App ID mismatch'')), [])"
    using t ne by (simp add: post_health_urls_def)
  have g: "get_app getApp env appId authenticatedAppId =
           (Response 403 (Own (Err UNAUTHORIZED ''App ID mismatch'')), [])"
    using t ne by (simp add: get_app_def)
  have d: "delete_app deleteApp env appId authenticatedAppId =
           (Response 403 (Own (Err UNAUTHORIZED ''App ID mismatch'')), [])"
    using t ne by (simp add: delete_app_def)
  show ?thesis using s p h g d by simp
qed

theorem cross_tenant_rejected_witness:
  "post_prune
     (\<lparr>APP_LOGS_DO = (\<lambda>_ _. Resolved (Json True (Other ()))), LOGS_KV = Some ()\<rparr> :: (unit, unit) Env)
     ''app-b'' (Some ''app-a'') (Some ''2024-06-01T00:00:00.000Z'') =
     (Response 403 (Own (Err UNAUTHORIZED ''App ID mismatch'')) :: (unit, unit) outcome, [])
   \<and> delete_app (\<lambda>_ _. Ok ())
     (\<lparr>APP_LOGS_DO = (\<lambda>_ _. Resolved (Json True (Other ()))), LOGS_KV = Some ()\<rparr> :: (unit, unit) Env)
     ''app-b'' (Some ''app-a'') =
     (Response 403 (Own (Err UNAUTHORIZED ''App ID mismatch'')) :: (unit, unit) outcome, [])"
proof -
  have a: "Some ''app-a'' = Some ''app-a''" by simp
  have b: "''app-a'' \<noteq> []" by simp
  have c: "''app-a'' \<noteq> ''app-b''" by simp
  note t = cross_tenant_rejected[OF a b c]
  show ?thesis
    by (intro conjI)
      (rule t[THEN conjunct2, THEN conjunct1],
       rule t[THEN conjunct2, THEN conjunct2, THEN conjunct2, THEN conjunct2])
qed

text \<open>
  Claim C8. When the details of a registered application are read by an authorised
  caller, the answer is the registration without its \<^verbatim>\<open>api_key\<close> member: no member
  of the answer is named \<^verbatim>\<open>api_key\<close>, every other member is there with its value, in
  the order of the registration. Two registrations that differ only in \<^verbatim>\<open>api_key\<close>
  give the same answer.
\<close>

theorem api_key_not_returned:
  assumes "\<not> (truthy authenticatedAppId \<and> Some appId \<noteq> authenticatedAppId)"
    and "LOGS_KV env = Some kv" and "getApp kv appId = Ok (Some registration)"
  shows "\<exists>shown. get_app getApp env appId authenticatedAppId =
             (Response 200 (Own (Ok shown)), [Call_getApp appId])
       \<and> ''api_key'' \<notin> fst ` set shown
       \<and> shown = filter (\<lambda>member. fst member \<noteq> ''api_key'') registration
       \<and> (\<forall>name. name \<noteq> ''api_key'' \<longrightarrow> map_of shown name = map_of registration name)
       \<and> (\<forall>getApp' registration'.
             getApp' kv appId = Ok (Some registration') \<and>
             filter (\<lambda>member. fst member \<noteq> ''api_key'') registration' =
             filter (\<lambda>member. fst member \<noteq> ''api_key'') registration \<longrightarrow>
             get_app getApp' env appId authenticatedAppId =
             get_app getApp env appId authenticatedAppId)
       \<and> (\<forall>getApp' secret.
             getApp' kv appId =
               Ok (Some (map (\<lambda>member. if fst member = ''api_key'' then (''api_key'', secret)
                                          else member) registration)) \<longrightarrow>
             get_app getApp' env appId authenticatedAppId =
             get_app getApp env appId authenticatedAppId)"
proof -
  let ?shown = "safeData registration"
  have r: "get_app getApp env appId authenticatedAppId =
             (Response 200 (Own (Ok ?shown)), [Call_getApp appId])"
    using assms by (auto simp: get_app_def)
  have k: "''api_key'' \<notin> fst ` set ?shown"
    by (auto simp: safeData_def)
  have f: "?shown = filter (\<lambda>member. fst member \<noteq> ''api_key'') registration"
    by (simp add: safeData_def)
  have m: "\<forall>name. name \<noteq> ''api_key'' \<longrightarrow> map_of ?shown name = map_of registration name"
    by (simp add: safeData_map_of)
  have n1: "\<forall>getApp' registration'.
             getApp' kv appId = Ok (Some registration') \<and>
             filter (\<lambda>member. fst member \<noteq> ''api_key'') registration' =
             filter (\<lambda>member. fst member \<noteq> ''api_key'') registration \<longrightarrow>
             get_app getApp' env appId authenticatedAppId =
             get_app getApp env appId authenticatedAppId"
    using assms by (auto simp: get_app_def safeData_def)
  have n2: "\<forall>getApp' secret.
             getApp' kv appId =
               Ok (Some (map (\<lambda>member. if fst member = ''api_key'' then (''api_key'', secret)
                                          else member) registration)) \<longrightarrow>
             get_app getApp' env appId authenticatedAppId =
             get_app getApp env appId authenticatedAppId"
    using assms by (auto simp: get_app_def safeData_replace_key)
  show ?thesis
    by (rule exI[of _ ?shown]) (intro conjI r k f m n1 n2)
qed

theorem api_key_not_returned_witness:
  "get_app (\<lambda>_ _. Ok (Some [(''app_id'', ''a''), (''name'', ''A''), (''api_key'', ''s3cret''),
                               (''created_at'', ''2024-01-01'')]))
     (\<lparr>APP_LOGS_DO = (\<lambda>_ _. Throws), LOGS_KV = Some ()\<rparr> :: (unit, unit) Env) ''a'' (Some ''a'') =
   (Response 200 (Own (Ok [(''app_id'', ''a''), (''name'', ''A''), (''created_at'', ''2024-01-01'')])),
    [Call_getApp ''a''])"
proof -
  let ?reg = "[(''app_id'', ''a''), (''name'', ''A''), (''api_key'', ''s3cret''),
               (''created_at'', ''2024-01-01'')]"
  let ?env = "\<lparr>APP_LOGS_DO = (\<lambda>_ _. Throws), LOGS_KV = Some ()\<rparr> :: (unit, unit) Env"
  have a: "\<not> (truthy (Some ''a'') \<and> Some ''a'' \<noteq> Some ''a'')" by simp
  have b: "LOGS_KV ?env = Some ()" by simp
  have c: "(\<lambda>_ _. Ok (Some ?reg)) () ''a'' = Ok (Some ?reg)" by simp
  from api_key_not_returned[of "Some ''a''" "''a''" ?env "()" "\<lambda>_ _. Ok (Some ?reg)" ?reg, OF a b c]
  obtain shown where
    "get_app (\<lambda>_ _. Ok (Some ?reg)) ?env ''a'' (Some ''a'') =
       (Response 200 (Own (Ok shown)), [Call_getApp ''a''])"
    "shown = filter (\<lambda>member. fst member \<noteq> ''api_key'') ?reg"
    by blast
  then show ?thesis by simp
qed



section \<open>Writes and statistics\<close>






end
